theory Spec2Isabelle
  imports Main
begin

section \<open>Rate limiting middleware (backend/middleware/rateLimit.js)\<close>

text \<open>
  Timestamps are the integer millisecond readings of \<^verbatim>\<open>Date.now()\<close>; every
  function that reads the clock takes the reading as an argument. The store is the
  module-level \<^verbatim>\<open>Map\<close> from client address to its entry; functions that
  mutate it return the updated store.
\<close>

record rate_entry =
  count :: int
  resetTime :: int
  blocked :: bool
  blockedUntil :: int

type_synonym rate_store = "string \<rightharpoonup> rate_entry"

text \<open>\<^verbatim>\<open>RATE_LIMIT_CONFIG\<close>.\<close>

definition windowMs :: int where
  "windowMs = 60000"

definition maxRequests :: int where
  "maxRequests = 10"

definition blockDuration :: int where
  "blockDuration = 300000"

text \<open>
  The two bodies the middleware sends with status 429:
  \<^verbatim>\<open>Terlalu banyak permintaan. Coba lagi dalam ${remainingTime} detik.\<close>
  (\<open>RetryIn remainingTime\<close>) and
  \<^verbatim>\<open>Terlalu banyak permintaan. Anda diblokir sementara.\<close>
  (\<open>BlockedTemporarily\<close>).
\<close>

datatype rate_error = RetryIn int | BlockedTemporarily

text \<open>
  What one run of the middleware does to the response and the handler chain:
  \<open>sent\<close> is the status and body passed to \<^verbatim>\<open>res.status(..).json(..)\<close>, if any;
  \<open>next_called\<close> tells whether \<^verbatim>\<open>next()\<close> ran, handing the request to the
  validation middleware and the chat handler.
\<close>

record outcome =
  sent :: "(nat \<times> rate_error) option"
  next_called :: bool

text \<open>
  \<^verbatim>\<open>Math.ceil(ms / 1000)\<close> on an integer number of milliseconds (the quotient of
  two integers of this size is rounded by less than the distance to the next integer, so
  the floating-point ceiling is the integer one).
\<close>

definition ceil_seconds :: "int \<Rightarrow> int" where
  "ceil_seconds ms = - ((- ms) div 1000)"

text \<open>
  \<^verbatim>\<open>cleanupOldEntries(now)\<close>: the loop visits every entry and deletes it when
  \<^verbatim>\<open>now - data.resetTime > windowMs\<close>. Each entry is tested on its own against
  the same \<open>now\<close>, so the result is the store restricted to the entries that fail the test.
\<close>

definition cleanupOldEntries :: "int \<Rightarrow> rate_store \<Rightarrow> rate_store" where
  "cleanupOldEntries now store =
     (\<lambda>ip. case store ip of
         None \<Rightarrow> None
       | Some data \<Rightarrow> if now - resetTime data > windowMs then None else Some data)"

text \<open>
  \<^verbatim>\<open>updateRequestCounter(clientIP, now, res)\<close>: returns the store and the response
  it sent, if any. Its \<^verbatim>\<open>return res.status(429)...\<close> leaves this function only.
\<close>

definition updateRequestCounter ::
  "string \<Rightarrow> int \<Rightarrow> rate_store \<Rightarrow> rate_store \<times> (nat \<times> rate_error) option" where
  "updateRequestCounter clientIP now store =
     (case store clientIP of
        None \<Rightarrow>
          (store(clientIP \<mapsto>
             \<lparr>count = 1, resetTime = now, blocked = False, blockedUntil = 0\<rparr>), None)
      | Some data0 \<Rightarrow>
          (let data = data0\<lparr>count := count data0 + 1\<rparr> in
           if count data > maxRequests
           then (store(clientIP \<mapsto>
                   data\<lparr>blocked := True, blockedUntil := now + blockDuration\<rparr>),
                 Some (429, BlockedTemporarily))
           else (store(clientIP \<mapsto> data), None)))"

text \<open>
  \<^verbatim>\<open>rateLimitMiddleware(req, res, next)\<close> for the client address \<open>clientIP\<close> at
  clock reading \<open>now\<close>. After \<^verbatim>\<open>updateRequestCounter\<close> returns, the middleware
  calls \<^verbatim>\<open>next()\<close> whatever that call sent.
\<close>

definition rateLimitMiddleware :: "string \<Rightarrow> int \<Rightarrow> rate_store \<Rightarrow> rate_store \<times> outcome" where
  "rateLimitMiddleware clientIP now store =
     (let store1 = cleanupOldEntries now store;
          ipData = store1 clientIP
      in case ipData of
           None \<Rightarrow>
             (let (store3, r) = updateRequestCounter clientIP now store1
              in (store3, \<lparr>sent = r, next_called = True\<rparr>))
         | Some d \<Rightarrow>
             if blocked d \<and> now < blockedUntil d
             then (store1,
                   \<lparr>sent = Some (429, RetryIn (ceil_seconds (blockedUntil d - now))),
                    next_called = False\<rparr>)
             else
               (let store2 = (if blocked d \<and> now \<ge> blockedUntil d
                              then store1(clientIP := None) else store1);
                    (store3, r) = updateRequestCounter clientIP now store2
                in (store3, \<lparr>sent = r, next_called = True\<rparr>)))"

text \<open>
  A client issuing one request per clock reading of \<open>ts\<close>, in order: the final store
  and the outcome of each request.
\<close>

fun requests :: "string \<Rightarrow> int list \<Rightarrow> rate_store \<Rightarrow> rate_store \<times> outcome list" where
  "requests clientIP [] store = (store, [])"
| "requests clientIP (now # ts) store =
     (let (store1, r) = rateLimitMiddleware clientIP now store;
          (store2, rs) = requests clientIP ts store1
      in (store2, r # rs))"

text \<open>The retry wait in seconds that an outcome reports to the client, if it reports one.\<close>

fun retryAfterSeconds :: "outcome \<Rightarrow> int option" where
  "retryAfterSeconds r =
     (case sent r of
        Some (_, RetryIn n) \<Rightarrow> Some n
      | _ \<Rightarrow> None)"

text \<open>A request is admitted when it is handed on and no response was sent for it.\<close>

definition admitted :: outcome where
  "admitted = \<lparr>sent = None, next_called = True\<rparr>"

section \<open>Conversation memory (backend/routes/chat.js)\<close>

record turn =
  role :: string
  content :: string
  timestamp :: int

record conversation =
  messages :: "turn list"
  lastActivity :: int

type_synonym conv_store = "string \<rightharpoonup> conversation"

definition MAX_CONVERSATION_LENGTH :: nat where
  "MAX_CONVERSATION_LENGTH = 10"

definition MEMORY_CLEANUP_INTERVAL :: int where
  "MEMORY_CLEANUP_INTERVAL = 30 * 60 * 1000"

text \<open>
  \<^verbatim>\<open>Array.prototype.slice(start)\<close>: a negative \<open>start\<close> counts from the end and
  is clamped at the beginning of the array, a positive one is clamped at its length.
\<close>

definition slice_from :: "int \<Rightarrow> 'a list \<Rightarrow> 'a list" where
  "slice_from start xs =
     (let len = int (length xs);
          k = (if start < 0 then max (len + start) 0 else min start len)
      in drop (nat k) xs)"

text \<open>
  \<^verbatim>\<open>a || d\<close> on a value that is a string or undefined: the empty string is falsy.
\<close>

definition js_or :: "string option \<Rightarrow> string \<Rightarrow> string" where
  "js_or v d = (case v of None \<Rightarrow> d | Some s \<Rightarrow> if s = [] then d else s)"

text \<open>
  The attributes of the request that the chat routes read: \<^verbatim>\<open>req.ip\<close>,
  \<^verbatim>\<open>req.connection.remoteAddress\<close> and the \<^verbatim>\<open>User-Agent\<close> header.
  Strings are byte strings, in the UTF-8 encoding \<^verbatim>\<open>Buffer.from\<close> produces.
\<close>

record request =
  req_ip :: "string option"
  remoteAddress :: "string option"
  userAgent :: "string option"

text \<open>
  \<^verbatim>\<open>Buffer.prototype.toString('base64')\<close>: the standard alphabet of RFC 4648,
  three bytes to four characters, padded with \<open>=\<close>.
\<close>

definition b64_alphabet :: string where
  "b64_alphabet = ''ABCDEFGHIJKLMNOPQRSTUVWXYZabcdefghijklmnopqrstuvwxyz0123456789+/''"

definition b64_char :: "nat \<Rightarrow> char" where
  "b64_char n = b64_alphabet ! (n mod 64)"

fun base64 :: "string \<Rightarrow> string" where
  "base64 [] = []"
| "base64 [a] =
     (let x = (of_char a :: nat)
      in [b64_char (x div 4), b64_char ((x mod 4) * 16), CHR ''='', CHR ''=''])"
| "base64 [a, b] =
     (let x = (of_char a :: nat); y = (of_char b :: nat)
      in [b64_char (x div 4), b64_char ((x mod 4) * 16 + y div 16),
          b64_char ((y mod 16) * 4), CHR ''=''])"
| "base64 (a # b # c # rest) =
     (let x = (of_char a :: nat); y = (of_char b :: nat); z = (of_char c :: nat)
      in [b64_char (x div 4), b64_char ((x mod 4) * 16 + y div 16),
          b64_char ((y mod 16) * 4 + z div 64), b64_char (z mod 64)] @ base64 rest)"

text \<open>The string \<^verbatim>\<open>`${ip}-${userAgent}`\<close> that \<^verbatim>\<open>generateSessionId\<close> encodes.\<close>

definition session_source :: "request \<Rightarrow> string" where
  "session_source req =
     (let ip = js_or (req_ip req) (js_or (remoteAddress req) ''unknown'');
          ua = js_or (userAgent req) ''unknown''
      in ip @ ''-'' @ ua)"

text \<open>\<^verbatim>\<open>generateSessionId(req)\<close>; \<^verbatim>\<open>substring(0, 16)\<close> keeps at most 16 characters.\<close>

definition generateSessionId :: "request \<Rightarrow> string" where
  "generateSessionId req = take 16 (base64 (session_source req))"

text \<open>
  \<^verbatim>\<open>getConversationHistory(sessionId)\<close>: get-or-create. \<open>now\<close> is the clock reading
  taken when the entry is created. The caller receives the stored object.
\<close>

definition getConversationHistory ::
  "string \<Rightarrow> int \<Rightarrow> conv_store \<Rightarrow> conversation \<times> conv_store" where
  "getConversationHistory sessionId now store =
     (case store sessionId of
        None \<Rightarrow>
          (let fresh = \<lparr>messages = [], lastActivity = now\<rparr>
           in (fresh, store(sessionId \<mapsto> fresh)))
      | Some c \<Rightarrow> (c, store))"

text \<open>
  \<^verbatim>\<open>addToConversationHistory(sessionId, role, content)\<close>. The three clock readings
  are, in call order: the one of the get-or-create, the message's timestamp, and the
  new \<^verbatim>\<open>lastActivity\<close>.
\<close>

definition addToConversationHistory ::
  "string \<Rightarrow> string \<Rightarrow> string \<Rightarrow> int \<Rightarrow> int \<Rightarrow> int \<Rightarrow> conv_store \<Rightarrow> conv_store" where
  "addToConversationHistory sessionId r c t_get t_msg t_act store =
     (let (conv, store1) = getConversationHistory sessionId t_get store;
          pushed = messages conv @ [\<lparr>role = r, content = c, timestamp = t_msg\<rparr>];
          kept = (if length pushed > MAX_CONVERSATION_LENGTH * 2
                  then slice_from (- int (MAX_CONVERSATION_LENGTH * 2)) pushed
                  else pushed)
      in store1(sessionId \<mapsto> conv\<lparr>messages := kept, lastActivity := t_act\<rparr>))"

text \<open>
  \<^verbatim>\<open>buildConversationContext(messages)\<close>. The \<^verbatim>\<open>forEach\<close> appends one line per
  message to the accumulated \<^verbatim>\<open>context\<close>.
\<close>

definition render_line :: "turn \<Rightarrow> string" where
  "render_line msg =
     (if role msg = ''user''
      then ''Pengguna: '' @ content msg @ ''\<newline>''
      else ''Sahabat Nusantara: '' @ content msg @ ''\<newline>'')"

fun append_lines :: "string \<Rightarrow> turn list \<Rightarrow> string" where
  "append_lines context [] = context"
| "append_lines context (msg # rest) = append_lines (context @ render_line msg) rest"

definition context_header :: string where
  "context_header = ''\<newline>\<newline>Konteks percakapan sebelumnya:\<newline>''"

definition context_prompt :: string where
  "context_prompt = ''\<newline>Pertanyaan pengguna saat ini: ''"

definition buildConversationContext :: "turn list \<Rightarrow> string" where
  "buildConversationContext msgs =
     (if length msgs = 0 then ''''
      else
        (let recentMessages = slice_from (- 8) msgs;
             context = append_lines context_header recentMessages
         in context @ context_prompt))"

text \<open>
  The context step of \<^verbatim>\<open>handleChatRequest\<close>: the session's conversation is fetched
  with \<^verbatim>\<open>getConversationHistory\<close> and its messages are rendered. Returns the
  context string and the store as the step leaves it.
\<close>

definition conversationContext :: "string \<Rightarrow> int \<Rightarrow> conv_store \<Rightarrow> string \<times> conv_store" where
  "conversationContext sessionId now store =
     (let (conv, store1) = getConversationHistory sessionId now store
      in (buildConversationContext (messages conv), store1))"

text \<open>
  \<^verbatim>\<open>cleanupOldConversations()\<close> at clock reading \<open>now\<close>: every entry whose
  \<^verbatim>\<open>lastActivity\<close> is below the cutoff is deleted.
\<close>

definition cleanupOldConversations :: "int \<Rightarrow> conv_store \<Rightarrow> conv_store" where
  "cleanupOldConversations now store =
     (let cutoff = now - MEMORY_CLEANUP_INTERVAL
      in (\<lambda>sessionId. case store sessionId of
            None \<Rightarrow> None
          | Some c \<Rightarrow> if lastActivity c < cutoff then None else Some c))"

text \<open>
  \<^verbatim>\<open>handleClearConversation(req, res)\<close>: the reply is either the success body
  (message, session id) or the status-500 body of the \<^verbatim>\<open>catch\<close> branch. Nothing in
  the \<^verbatim>\<open>try\<close> block throws on a request with these attributes, so the function
  always reaches the success reply.
\<close>

datatype clear_reply = ClearSuccess string string | ClearError string

definition handleClearConversation :: "request \<Rightarrow> conv_store \<Rightarrow> clear_reply \<times> conv_store" where
  "handleClearConversation req store =
     (let sessionId = generateSessionId req;
          store1 = (if store sessionId \<noteq> None then store(sessionId := None) else store)
      in (ClearSuccess ''Conversation history cleared'' sessionId, store1))"

text \<open>A session's turns, for a key with or without an entry.\<close>

definition turns_of :: "conv_store \<Rightarrow> string \<Rightarrow> turn list" where
  "turns_of store sessionId = (case store sessionId of None \<Rightarrow> [] | Some c \<Rightarrow> messages c)"

text \<open>
  A sequence of \<^verbatim>\<open>addToConversationHistory\<close> calls on one session, each given as
  (role, content, clock readings).
\<close>

fun record_all ::
  "string \<Rightarrow> (string \<times> string \<times> int \<times> int \<times> int) list \<Rightarrow> conv_store \<Rightarrow> conv_store" where
  "record_all sessionId [] store = store"
| "record_all sessionId ((r, c, t_get, t_msg, t_act) # calls) store =
     record_all sessionId calls
       (addToConversationHistory sessionId r c t_get t_msg t_act store)"

definition turn_of_call :: "string \<times> string \<times> int \<times> int \<times> int \<Rightarrow> turn" where
  "turn_of_call call =
     (case call of (r, c, t_get, t_msg, t_act) \<Rightarrow> \<lparr>role = r, content = c, timestamp = t_msg\<rparr>)"

section \<open>Properties\<close>

subsection \<open>One request, by the state of the client's entry\<close>

lemma step_fresh:
  assumes "store k = None"
  shows "fst (rateLimitMiddleware k now store) k
           = Some \<lparr>count = 1, resetTime = now, blocked = False, blockedUntil = 0\<rparr>
         \<and> snd (rateLimitMiddleware k now store) = admitted"
  using assms
  by (simp add: rateLimitMiddleware_def cleanupOldEntries_def updateRequestCounter_def
      admitted_def)

lemma step_counting:
  assumes "store k = Some d" "\<not> blocked d" "now - resetTime d \<le> windowMs"
    "count d + 1 \<le> maxRequests"
  shows "fst (rateLimitMiddleware k now store) k = Some (d\<lparr>count := count d + 1\<rparr>)
         \<and> snd (rateLimitMiddleware k now store) = admitted"
  using assms
  by (simp add: rateLimitMiddleware_def cleanupOldEntries_def updateRequestCounter_def
      admitted_def Let_def)

lemma step_trigger:
  assumes "store k = Some d" "\<not> blocked d" "now - resetTime d \<le> windowMs"
    "count d + 1 > maxRequests"
  shows "fst (rateLimitMiddleware k now store) k
           = Some (d\<lparr>count := count d + 1, blocked := True,
                     blockedUntil := now + blockDuration\<rparr>)
         \<and> snd (rateLimitMiddleware k now store)
           = \<lparr>sent = Some (429, BlockedTemporarily), next_called = True\<rparr>"
  using assms
  by (simp add: rateLimitMiddleware_def cleanupOldEntries_def updateRequestCounter_def
      admitted_def Let_def)

text \<open>
  A blocked client is turned away, with the remaining seconds, only while its entry is
  still inside the counting window; an entry older than the window is deleted by the
  cleanup before the block is looked at, blocked or not, and the request starts afresh.
\<close>

lemma step_blocked:
  assumes "store k = Some d" "blocked d" "now < blockedUntil d"
    "now - resetTime d \<le> windowMs"
  shows "fst (rateLimitMiddleware k now store) k = Some d
         \<and> snd (rateLimitMiddleware k now store)
           = \<lparr>sent = Some (429, RetryIn (ceil_seconds (blockedUntil d - now))),
              next_called = False\<rparr>"
  using assms
  by (simp add: rateLimitMiddleware_def cleanupOldEntries_def updateRequestCounter_def)

lemma step_purged:
  assumes "store k = Some d" "now - resetTime d > windowMs"
  shows "fst (rateLimitMiddleware k now store) k
           = Some \<lparr>count = 1, resetTime = now, blocked = False, blockedUntil = 0\<rparr>
         \<and> snd (rateLimitMiddleware k now store) = admitted"
  using assms
  by (simp add: rateLimitMiddleware_def cleanupOldEntries_def updateRequestCounter_def
      admitted_def)

subsection \<open>Sequences of requests\<close>

lemma requests_append:
  "requests k (ts @ us) store =
     (let (store1, rs) = requests k ts store;
          (store2, rs') = requests k us store1
      in (store2, rs @ rs'))"
  by (induction ts arbitrary: store) (simp_all add: Let_def split: prod.splits)

lemma requests_counting:
  assumes "store k = Some d" "\<not> blocked d" "\<forall>t\<in>set ts. t - resetTime d \<le> windowMs"
    "count d + int (length ts) \<le> maxRequests"
  shows "fst (requests k ts store) k = Some (d\<lparr>count := count d + int (length ts)\<rparr>)
         \<and> snd (requests k ts store) = replicate (length ts) admitted"
  using assms
proof (induction ts arbitrary: store d)
  case Nil
  then show ?case by simp
next
  case (Cons t ts)
  let ?s1 = "fst (rateLimitMiddleware k t store)"
  let ?d1 = "d\<lparr>count := count d + 1\<rparr>"
  have step: "?s1 k = Some ?d1 \<and> snd (rateLimitMiddleware k t store) = admitted"
    using Cons.prems by (intro step_counting) auto
  have ih: "fst (requests k ts ?s1) k = Some (?d1\<lparr>count := count ?d1 + int (length ts)\<rparr>)
            \<and> snd (requests k ts ?s1) = replicate (length ts) admitted"
    using Cons.prems step by (intro Cons.IH) auto
  show ?case using step ih
    by (simp add: split_beta Let_def add.assoc)
qed

text \<open>
  C1 (as the code has it). A client with no entry issues eleven requests, the later ten
  at clock readings no more than \<open>windowMs\<close> after the first. The first ten are
  admitted: handed on with nothing sent. On the eleventh the middleware sends status 429
  with the fixed "temporarily blocked" body, which carries no retry wait, and the entry
  becomes blocked with \<open>blockedUntil = now + blockDuration\<close>, its count at 11 and its
  window start still the first request's reading. A further request inside the same
  window and before \<open>blockedUntil\<close> is turned away without being handed on, and
  reports the remaining time rounded up to seconds.
\<close>

theorem admission_boundary:
  assumes "store k = None" and "length ts = 9"
    and "\<forall>t\<in>set (ts @ [t11]). t - t1 \<le> windowMs"
  shows "take 10 (snd (requests k (t1 # ts @ [t11]) store)) = replicate 10 admitted
       \<and> sent (snd (requests k (t1 # ts @ [t11]) store) ! 10) = Some (429, BlockedTemporarily)
       \<and> retryAfterSeconds (snd (requests k (t1 # ts @ [t11]) store) ! 10) = None
       \<and> fst (requests k (t1 # ts @ [t11]) store) k
           = Some \<lparr>count = 11, resetTime = t1, blocked = True,
                   blockedUntil = t11 + blockDuration\<rparr>
       \<and> (\<forall>t12. t12 - t1 \<le> windowMs \<and> t12 < t11 + blockDuration \<longrightarrow>
            snd (rateLimitMiddleware k t12 (fst (requests k (t1 # ts @ [t11]) store)))
              = \<lparr>sent = Some (429, RetryIn (ceil_seconds (t11 + blockDuration - t12))),
                 next_called = False\<rparr>)"
proof -
  let ?d1 = "\<lparr>count = 1, resetTime = t1, blocked = False, blockedUntil = 0\<rparr>"
  let ?d10 = "\<lparr>count = 10, resetTime = t1, blocked = False, blockedUntil = 0\<rparr>"
  let ?d11 = "\<lparr>count = 11, resetTime = t1, blocked = True, blockedUntil = t11 + blockDuration\<rparr>"
  let ?s1 = "fst (rateLimitMiddleware k t1 store)"
  let ?s10 = "fst (requests k ts ?s1)"
  let ?s11 = "fst (requests k (t1 # ts @ [t11]) store)"
  have first: "?s1 k = Some ?d1 \<and> snd (rateLimitMiddleware k t1 store) = admitted"
    using assms(1) by (rule step_fresh)
  have mid: "?s10 k = Some (?d1\<lparr>count := count ?d1 + int (length ts)\<rparr>)
             \<and> snd (requests k ts ?s1) = replicate (length ts) admitted"
    using first assms(2,3) by (intro requests_counting) (auto simp: maxRequests_def)
  then have s10: "?s10 k = Some ?d10"
    using assms(2) by simp
  have last: "fst (rateLimitMiddleware k t11 ?s10) k = Some ?d11
              \<and> snd (rateLimitMiddleware k t11 ?s10)
                = \<lparr>sent = Some (429, BlockedTemporarily), next_called = True\<rparr>"
    using step_trigger [of ?s10 k ?d10 t11] s10 assms(3) by (simp add: maxRequests_def)
  have outs: "snd (requests k (t1 # ts @ [t11]) store)
                = replicate 10 admitted
                  @ [\<lparr>sent = Some (429, BlockedTemporarily), next_called = True\<rparr>]"
    using first mid last assms(2)
    by (simp add: requests_append split_beta Let_def flip: replicate_Suc)
  have fin: "?s11 = fst (rateLimitMiddleware k t11 ?s10)"
    by (simp add: requests_append split_beta Let_def)
  have s11: "?s11 k = Some ?d11"
    using fin last by simp
  have later: "snd (rateLimitMiddleware k t12 ?s11)
              = \<lparr>sent = Some (429, RetryIn (ceil_seconds (t11 + blockDuration - t12))),
                 next_called = False\<rparr>"
    if "t12 - t1 \<le> windowMs" and "t12 < t11 + blockDuration" for t12
    using step_blocked [of ?s11 k ?d11 t12] s11 that by simp
  have head: "take 10 (snd (requests k (t1 # ts @ [t11]) store)) = replicate 10 admitted"
    and trig: "sent (snd (requests k (t1 # ts @ [t11]) store) ! 10) = Some (429, BlockedTemporarily)"
    and nowait: "retryAfterSeconds (snd (requests k (t1 # ts @ [t11]) store) ! 10) = None"
    unfolding outs by (simp_all add: nth_append)
  show ?thesis using head trig nowait s11 later by blast
qed

theorem admission_boundary_witness:
  "take 10 (snd (requests ''203.0.113.7''
       [1000, 2000, 3000, 4000, 5000, 6000, 7000, 8000, 9000, 10000, 61000] Map.empty))
     = replicate 10 admitted
   \<and> sent (snd (requests ''203.0.113.7''
       [1000, 2000, 3000, 4000, 5000, 6000, 7000, 8000, 9000, 10000, 61000] Map.empty) ! 10)
     = Some (429, BlockedTemporarily)
   \<and> fst (requests ''203.0.113.7''
       [1000, 2000, 3000, 4000, 5000, 6000, 7000, 8000, 9000, 10000, 61000] Map.empty)
       ''203.0.113.7''
     = Some \<lparr>count = 11, resetTime = 1000, blocked = True, blockedUntil = 361000\<rparr>
   \<and> snd (rateLimitMiddleware ''203.0.113.7'' 61000
       (fst (requests ''203.0.113.7''
         [1000, 2000, 3000, 4000, 5000, 6000, 7000, 8000, 9000, 10000, 61000] Map.empty)))
     = \<lparr>sent = Some (429, RetryIn 300), next_called = False\<rparr>"
proof -
  let ?k = "''203.0.113.7''"
  let ?ts = "[2000, 3000, 4000, 5000, 6000, 7000, 8000, 9000, 10000] :: int list"
  have fresh: "Map.empty ?k = (None :: rate_entry option)"
    by simp
  have nine: "length ?ts = 9"
    by simp
  have inside: "\<forall>t\<in>set (?ts @ [61000]). t - 1000 \<le> windowMs"
    by (simp add: windowMs_def)
  note run = admission_boundary [of Map.empty ?k ?ts 61000 1000, OF fresh nine inside]
  have a: "take 10 (snd (requests ?k (1000 # ?ts @ [61000]) Map.empty)) = replicate 10 admitted"
    using run by (rule conjunct1)
  have b: "sent (snd (requests ?k (1000 # ?ts @ [61000]) Map.empty) ! 10)
      = Some (429, BlockedTemporarily)"
    using run [THEN conjunct2] by (rule conjunct1)
  have c: "fst (requests ?k (1000 # ?ts @ [61000]) Map.empty) ?k
      = Some \<lparr>count = 11, resetTime = 1000, blocked = True, blockedUntil = 361000\<rparr>"
    using run [THEN conjunct2, THEN conjunct2, THEN conjunct2, THEN conjunct1]
    by (simp add: blockDuration_def)
  have "(61000::int) - 1000 \<le> windowMs \<and> (61000::int) < 61000 + blockDuration"
    by (simp add: windowMs_def blockDuration_def)
  then have d: "snd (rateLimitMiddleware ?k 61000
        (fst (requests ?k (1000 # ?ts @ [61000]) Map.empty)))
      = \<lparr>sent = Some (429, RetryIn (ceil_seconds (61000 + blockDuration - 61000))),
         next_called = False\<rparr>"
    using run [THEN conjunct2, THEN conjunct2, THEN conjunct2, THEN conjunct2] by blast
  have e: "ceil_seconds (61000 + blockDuration - 61000) = 300"
    by (simp add: ceil_seconds_def blockDuration_def)
  show ?thesis using a b c d unfolding e by simp
qed

text \<open>
  C1 as stated fails on the eleventh of eleven requests at readings 0 to 10 from an
  empty store: the request is handed on to the next handler although the 429 was sent,
  and the response reports no retry wait.
\<close>

theorem admission_boundary_counterexample:
  "next_called (snd (requests ''203.0.113.7'' [0, 1, 2, 3, 4, 5, 6, 7, 8, 9, 10] Map.empty) ! 10)
   \<and> retryAfterSeconds
       (snd (requests ''203.0.113.7'' [0, 1, 2, 3, 4, 5, 6, 7, 8, 9, 10] Map.empty) ! 10) = None"
  by (simp add: rateLimitMiddleware_def cleanupOldEntries_def updateRequestCounter_def
      Let_def windowMs_def maxRequests_def blockDuration_def)

text \<open>
  C2 at its own example. Eleven requests at readings 0 to 10 trigger a block at
  \<open>T = 10\<close>, with \<open>blockedUntil = 300010\<close>. A request at \<open>T + 299\<close> seconds comes
  before \<open>blockedUntil\<close>, yet it is admitted: the cleanup at the start of the middleware
  has deleted the blocked entry, whose window start is more than \<open>windowMs\<close> old.
\<close>

theorem block_purged_before_expiry:
  "fst (requests ''203.0.113.7'' [0, 1, 2, 3, 4, 5, 6, 7, 8, 9, 10] Map.empty) ''203.0.113.7''
     = Some \<lparr>count = 11, resetTime = 0, blocked = True, blockedUntil = 300010\<rparr>
   \<and> snd (requests ''203.0.113.7'' [0, 1, 2, 3, 4, 5, 6, 7, 8, 9, 10, 299010] Map.empty) ! 11
     = admitted"
  by (simp add: rateLimitMiddleware_def cleanupOldEntries_def updateRequestCounter_def
      Let_def windowMs_def maxRequests_def blockDuration_def admitted_def)

text \<open>
  C3 at a store the middleware produces. After eleven requests at readings 0 to 10 the
  client's entry is blocked until 300010. The cleanup at reading 100000, well before
  that, removes the entry: it tests the age of the window start only.
\<close>

theorem cleanup_removes_blocked_entry:
  "fst (requests ''203.0.113.7'' [0, 1, 2, 3, 4, 5, 6, 7, 8, 9, 10] Map.empty) ''203.0.113.7''
     = Some \<lparr>count = 11, resetTime = 0, blocked = True, blockedUntil = 300010\<rparr>
   \<and> cleanupOldEntries 100000
       (fst (requests ''203.0.113.7'' [0, 1, 2, 3, 4, 5, 6, 7, 8, 9, 10] Map.empty))
       ''203.0.113.7'' = None"
  by (simp add: rateLimitMiddleware_def cleanupOldEntries_def updateRequestCounter_def
      Let_def windowMs_def maxRequests_def blockDuration_def admitted_def)

lemma cleanupOldEntries_removes_iff:
  "cleanupOldEntries now store ip = None
     \<longleftrightarrow> (case store ip of None \<Rightarrow> True | Some d \<Rightarrow> now - resetTime d > windowMs)"
  by (simp add: cleanupOldEntries_def split: option.splits)

subsection \<open>Arrays and strings\<close>

lemma slice_from_neg: "n > 0 \<Longrightarrow> slice_from (- int n) xs = drop (length xs - n) xs"
  by (auto simp: slice_from_def Let_def max_def nat_diff_distrib' intro: arg_cong2[where f=drop])

lemma slice_from_20: "slice_from (- 20) xs = drop (length xs - 20) xs"
  using slice_from_neg [of 20 xs] by simp

lemma slice_from_8: "slice_from (- 8) xs = drop (length xs - 8) xs"
  using slice_from_neg [of 8 xs] by simp

lemma drop_last_append:
  "drop (length (drop (length xs - n) xs @ ys) - n) (drop (length xs - n) xs @ ys)
     = drop (length (xs @ ys) - n) (xs @ ys)"
  by (cases "length xs \<le> n") (auto simp: add.commute)

lemma base64_take:
  "take (4 * n) (base64 xs) = take (4 * n) (base64 (take (3 * n) xs))"
proof (induction n arbitrary: xs)
  case 0
  then show ?case by simp
next
  case (Suc n)
  have three: "3 * Suc n = Suc (Suc (Suc (3 * n)))" and four: "4 * Suc n = Suc (Suc (Suc (Suc (4 * n))))"
    by simp_all
  show ?case
  proof (cases xs rule: base64.cases)
    case (4 a b c rest)
    then show ?thesis using Suc.IH [of rest] unfolding three four by (simp add: Let_def)
  qed (simp_all add: Let_def)
qed

lemma append_lines_concat:
  "append_lines acc ms = acc @ concat (map render_line ms)"
  by (induction ms arbitrary: acc) simp_all

subsection \<open>Conversation memory\<close>

lemma getConversationHistory_turns:
  "messages (fst (getConversationHistory k now store)) = turns_of store k"
  by (simp add: getConversationHistory_def turns_of_def Let_def split: option.splits)

lemma add_turns:
  "turns_of (addToConversationHistory k r c t0 t1 t2 store) k
     = drop (length (turns_of store k @ [\<lparr>role = r, content = c, timestamp = t1\<rparr>]) - 20)
         (turns_of store k @ [\<lparr>role = r, content = c, timestamp = t1\<rparr>])"
  by (simp add: addToConversationHistory_def getConversationHistory_def turns_of_def Let_def
      slice_from_20 MAX_CONVERSATION_LENGTH_def split: option.splits)

lemma add_other:
  "k' \<noteq> k \<Longrightarrow> addToConversationHistory k r c t0 t1 t2 store k' = store k'"
  by (simp add: addToConversationHistory_def getConversationHistory_def Let_def split: option.splits)

lemma turn_of_call_tuple:
  "turn_of_call (r, c, t0, t1, t2) = \<lparr>role = r, content = c, timestamp = t1\<rparr>"
  by (simp add: turn_of_call_def)

lemma record_all_turns:
  "calls \<noteq> [] \<Longrightarrow>
   turns_of (record_all k calls store) k
     = drop (length (turns_of store k @ map turn_of_call calls) - 20)
         (turns_of store k @ map turn_of_call calls)"
proof (induction calls arbitrary: store)
  case Nil
  then show ?case by simp
next
  case (Cons call calls)
  obtain r c t0 t1 t2 where call: "call = (r, c, t0, t1, t2)"
    by (cases call) auto
  let ?s1 = "addToConversationHistory k r c t0 t1 t2 store"
  let ?t = "\<lparr>role = r, content = c, timestamp = t1\<rparr>"
  have s1: "turns_of ?s1 k = drop (length (turns_of store k @ [?t]) - 20) (turns_of store k @ [?t])"
    by (rule add_turns)
  show ?case
  proof (cases "calls = []")
    case True
    then show ?thesis using s1 call by (simp add: turn_of_call_tuple)
  next
    case False
    then have "turns_of (record_all k calls ?s1) k
        = drop (length (turns_of ?s1 k @ map turn_of_call calls) - 20)
            (turns_of ?s1 k @ map turn_of_call calls)"
      by (rule Cons.IH)
    also have "\<dots> = drop (length ((turns_of store k @ [?t]) @ map turn_of_call calls) - 20)
            ((turns_of store k @ [?t]) @ map turn_of_call calls)"
      unfolding s1 by (rule drop_last_append)
    finally show ?thesis using call by (simp add: turn_of_call_tuple)
  qed
qed

text \<open>
  C4 (as the code has it). The context step fetches the session with the get-or-create
  \<^verbatim>\<open>getConversationHistory\<close>. For a key that has an entry the store is left as it
  was, \<^verbatim>\<open>lastActivity\<close> included. For a key without an entry the step creates one
  with zero turns and \<^verbatim>\<open>lastActivity = now\<close>; every other key keeps what it had.
  A first \<^verbatim>\<open>addToConversationHistory\<close> on a key without an entry creates the
  entry with that one turn.
\<close>

theorem context_store_effect:
  "(store k \<noteq> None \<longrightarrow> snd (conversationContext k now store) = store)
   \<and> (store k = None \<longrightarrow>
        snd (conversationContext k now store)
          = store(k \<mapsto> \<lparr>messages = [], lastActivity = now\<rparr>))
   \<and> (\<forall>k'. k' \<noteq> k \<longrightarrow> snd (conversationContext k now store) k' = store k')
   \<and> (store k = None \<longrightarrow>
        addToConversationHistory k r c t0 t1 t2 store k
          = Some \<lparr>messages = [\<lparr>role = r, content = c, timestamp = t1\<rparr>],
                  lastActivity = t2\<rparr>)"
  by (auto simp: conversationContext_def getConversationHistory_def
      addToConversationHistory_def Let_def MAX_CONVERSATION_LENGTH_def split: option.splits)

theorem context_store_effect_witness:
  "snd (conversationContext ''s1'' 7000
         [''s1'' \<mapsto> \<lparr>messages = [\<lparr>role = ''user'', content = ''Halo'', timestamp = 10\<rparr>],
                        lastActivity = 20\<rparr>])
     = [''s1'' \<mapsto> \<lparr>messages = [\<lparr>role = ''user'', content = ''Halo'', timestamp = 10\<rparr>],
                      lastActivity = 20\<rparr>]
   \<and> snd (conversationContext ''s2'' 7000
         [''s1'' \<mapsto> \<lparr>messages = [\<lparr>role = ''user'', content = ''Halo'', timestamp = 10\<rparr>],
                        lastActivity = 20\<rparr>])
     = [''s1'' \<mapsto> \<lparr>messages = [\<lparr>role = ''user'', content = ''Halo'', timestamp = 10\<rparr>],
                      lastActivity = 20\<rparr>,
        ''s2'' \<mapsto> \<lparr>messages = [], lastActivity = 7000\<rparr>]"
  using context_store_effect
      [of "[''s1'' \<mapsto> \<lparr>messages = [\<lparr>role = ''user'', content = ''Halo'', timestamp = 10\<rparr>],
                          lastActivity = 20\<rparr>]" "''s1''" 7000]
    context_store_effect
      [of "[''s1'' \<mapsto> \<lparr>messages = [\<lparr>role = ''user'', content = ''Halo'', timestamp = 10\<rparr>],
                          lastActivity = 20\<rparr>]" "''s2''" 7000]
  by simp

text \<open>
  C4 as stated fails on the empty store: after the context step for a key the store is
  no longer empty, and the key's entry has zero turns.
\<close>

theorem context_store_effect_counterexample:
  "snd (conversationContext ''s1'' 7000 Map.empty) \<noteq> Map.empty
   \<and> snd (conversationContext ''s1'' 7000 Map.empty) ''s1''
       = Some \<lparr>messages = [], lastActivity = 7000\<rparr>"
  by (simp add: conversationContext_def getConversationHistory_def Let_def)

text \<open>
  C5. After any non-empty sequence of \<^verbatim>\<open>addToConversationHistory\<close> calls on one
  session, the stored turns are the last \<open>2 * MAX_CONVERSATION_LENGTH\<close> of the turns
  held before followed by the appended ones, in arrival order, and so at most 20. Every
  prefix of a sequence of calls is such a sequence, so the bound holds after each call.
\<close>

theorem record_window_bound:
  assumes "calls \<noteq> []"
  shows "turns_of (record_all k calls store) k
           = drop (length (turns_of store k @ map turn_of_call calls)
                     - 2 * MAX_CONVERSATION_LENGTH)
               (turns_of store k @ map turn_of_call calls)
         \<and> length (turns_of (record_all k calls store) k) \<le> 2 * MAX_CONVERSATION_LENGTH"
  using record_all_turns [OF assms, of k store]
  by (simp add: MAX_CONVERSATION_LENGTH_def)

theorem record_window_bound_witness:
  "turns_of (record_all ''s1''
      (map (\<lambda>i. (''user'', ''q'', i, i, i))
         [1, 2, 3, 4, 5, 6, 7, 8, 9, 10, 11, 12, 13, 14, 15, 16, 17, 18, 19, 20, 21, 22])
      Map.empty) ''s1''
     = map (\<lambda>i. \<lparr>role = ''user'', content = ''q'', timestamp = i\<rparr>)
         [3, 4, 5, 6, 7, 8, 9, 10, 11, 12, 13, 14, 15, 16, 17, 18, 19, 20, 21, 22]
   \<and> length (turns_of (record_all ''s1''
      (map (\<lambda>i. (''user'', ''q'', i, i, i))
         [1, 2, 3, 4, 5, 6, 7, 8, 9, 10, 11, 12, 13, 14, 15, 16, 17, 18, 19, 20, 21, 22])
      Map.empty) ''s1'') = 20"
  using record_window_bound [of "map (\<lambda>i. (''user'', ''q'', i, i, i))
         [1, 2, 3, 4, 5, 6, 7, 8, 9, 10, 11, 12, 13, 14, 15, 16, 17, 18, 19, 20, 21, 22]"
         "''s1''" Map.empty]
  by (simp add: MAX_CONVERSATION_LENGTH_def turns_of_def turn_of_call_tuple)

text \<open>
  C6. With the session's \<^verbatim>\<open>lastActivity\<close> at \<open>T\<close>, the cleanup at reading
  \<open>now\<close> removes the session when \<open>now - T\<close> is above the 30 minute interval and
  keeps it as it is otherwise; any other session that is not idle is kept as it is, and
  no session appears.
\<close>

theorem idle_expiry:
  assumes "store k = Some c" and "lastActivity c = T"
  shows "MEMORY_CLEANUP_INTERVAL = 1800000
       \<and> (now - T > MEMORY_CLEANUP_INTERVAL \<longrightarrow> cleanupOldConversations now store k = None)
       \<and> (now - T \<le> MEMORY_CLEANUP_INTERVAL \<longrightarrow> cleanupOldConversations now store k = Some c)
       \<and> (\<forall>k' c'. store k' = Some c' \<and> now - lastActivity c' \<le> MEMORY_CLEANUP_INTERVAL
            \<longrightarrow> cleanupOldConversations now store k' = Some c')
       \<and> (\<forall>k'. store k' = None \<longrightarrow> cleanupOldConversations now store k' = None)"
  using assms
  by (auto simp: cleanupOldConversations_def Let_def MEMORY_CLEANUP_INTERVAL_def)

theorem idle_expiry_witness:
  "cleanupOldConversations 1800001
     [''idle'' \<mapsto> \<lparr>messages = [], lastActivity = 0\<rparr>,
      ''live'' \<mapsto> \<lparr>messages = [], lastActivity = 1\<rparr>] ''idle'' = None
   \<and> cleanupOldConversations 1800001
     [''idle'' \<mapsto> \<lparr>messages = [], lastActivity = 0\<rparr>,
      ''live'' \<mapsto> \<lparr>messages = [], lastActivity = 1\<rparr>] ''live''
       = Some \<lparr>messages = [], lastActivity = 1\<rparr>
   \<and> cleanupOldConversations 1800000
     [''idle'' \<mapsto> \<lparr>messages = [], lastActivity = 0\<rparr>,
      ''live'' \<mapsto> \<lparr>messages = [], lastActivity = 1\<rparr>] ''idle''
       = Some \<lparr>messages = [], lastActivity = 0\<rparr>"
proof -
  let ?idle = "\<lparr>messages = [], lastActivity = 0\<rparr>"
  let ?live = "\<lparr>messages = [], lastActivity = 1\<rparr>"
  let ?st = "[''idle'' \<mapsto> ?idle, ''live'' \<mapsto> ?live]"
  have idle: "?st ''idle'' = Some ?idle" and live: "?st ''live'' = Some ?live"
    by simp_all
  have t0: "lastActivity ?idle = 0" and t1: "lastActivity ?live = 1"
    by simp_all
  have gone: "cleanupOldConversations 1800001 ?st ''idle'' = None"
    using idle_expiry [of ?st "''idle''" ?idle 0 1800001, OF idle t0, THEN conjunct2, THEN conjunct1]
    by (simp add: MEMORY_CLEANUP_INTERVAL_def)
  have kept: "cleanupOldConversations 1800001 ?st ''live'' = Some ?live"
    using idle_expiry [of ?st "''live''" ?live 1 1800001, OF live t1, THEN conjunct2, THEN conjunct2, THEN conjunct1]
    by (simp add: MEMORY_CLEANUP_INTERVAL_def)
  have edge: "cleanupOldConversations 1800000 ?st ''idle'' = Some ?idle"
    using idle_expiry [of ?st "''idle''" ?idle 0 1800000, OF idle t0, THEN conjunct2, THEN conjunct2, THEN conjunct1]
    by (simp add: MEMORY_CLEANUP_INTERVAL_def)
  show ?thesis using gone kept edge by (intro conjI)
qed

text \<open>
  C7. The context for a key is the empty string when the key has no turns. Otherwise it
  is the header line, then the last 8 turns at most, in stored order, each as its role
  label (\<open>Pengguna\<close> for the role \<open>user\<close>, \<open>Sahabat Nusantara\<close> for any other),
  a colon and a space, the text and a line break, and at the end the prompt for the new
  question.
\<close>

theorem context_transcript:
  "fst (conversationContext k now store)
     = (if turns_of store k = [] then ''''
        else context_header
          @ concat (map (\<lambda>m. (if role m = ''user'' then ''Pengguna'' else ''Sahabat Nusantara'')
                               @ '': '' @ content m @ ''\<newline>'')
              (drop (length (turns_of store k) - 8) (turns_of store k)))
          @ context_prompt)
   \<and> length (drop (length (turns_of store k) - 8) (turns_of store k)) \<le> 8"
proof -
  have line: "render_line = (\<lambda>m. (if role m = ''user'' then ''Pengguna'' else ''Sahabat Nusantara'')
                               @ '': '' @ content m @ ''\<newline>'')"
    by (rule ext) (simp add: render_line_def)
  have fetch: "fst (conversationContext k now store) = buildConversationContext (turns_of store k)"
    by (simp add: conversationContext_def split_beta getConversationHistory_turns)
  have build: "buildConversationContext (turns_of store k)
     = (if turns_of store k = [] then []
        else context_header
          @ concat (map render_line (drop (length (turns_of store k) - 8) (turns_of store k)))
          @ context_prompt)"
    by (simp add: buildConversationContext_def Let_def slice_from_8 append_lines_concat)
  have rendered: "fst (conversationContext k now store)
     = (if turns_of store k = [] then []
        else context_header
          @ concat (map render_line (drop (length (turns_of store k) - 8) (turns_of store k)))
          @ context_prompt)"
    using fetch build by simp
  have short: "length (drop (length (turns_of store k) - 8) (turns_of store k)) \<le> 8"
    by simp
  show ?thesis using rendered short unfolding line by (intro conjI)
qed

theorem context_transcript_witness:
  "fst (conversationContext ''s1'' 50
      [''s1'' \<mapsto> \<lparr>messages =
          [\<lparr>role = ''user'', content = ''Apa itu Borobudur?'', timestamp = 1\<rparr>,
           \<lparr>role = ''assistant'', content = ''Borobudur adalah candi Buddha...'', timestamp = 2\<rparr>],
          lastActivity = 2\<rparr>])
     = ''\<newline>\<newline>Konteks percakapan sebelumnya:\<newline>''
       @ ''Pengguna: Apa itu Borobudur?\<newline>''
       @ ''Sahabat Nusantara: Borobudur adalah candi Buddha...\<newline>''
       @ ''\<newline>Pertanyaan pengguna saat ini: ''"
proof -
  let ?st = "[''s1'' \<mapsto> \<lparr>messages =
          [\<lparr>role = ''user'', content = ''Apa itu Borobudur?'', timestamp = 1\<rparr>,
           \<lparr>role = ''assistant'', content = ''Borobudur adalah candi Buddha...'', timestamp = 2\<rparr>],
          lastActivity = 2\<rparr>]"
  have turns: "turns_of ?st ''s1''
      = [\<lparr>role = ''user'', content = ''Apa itu Borobudur?'', timestamp = 1\<rparr>,
         \<lparr>role = ''assistant'', content = ''Borobudur adalah candi Buddha...'', timestamp = 2\<rparr>]"
    by (simp add: turns_of_def)
  show ?thesis
    using context_transcript [of "''s1''" 50 ?st, THEN conjunct1]
    unfolding turns
    by (simp add: context_header_def context_prompt_def)
qed

text \<open>
  C8. Clearing always answers with the success reply. On a key without a session the
  store, and with it the number of entries, is unchanged. Clearing a second time gives
  the same reply and the same store as clearing once, and the key has no session after.
\<close>

theorem clear_idempotent:
  "fst (handleClearConversation req store)
     = ClearSuccess ''Conversation history cleared'' (generateSessionId req)
   \<and> (store (generateSessionId req) = None \<longrightarrow>
        snd (handleClearConversation req store) = store
        \<and> card (dom (snd (handleClearConversation req store))) = card (dom store))
   \<and> handleClearConversation req (snd (handleClearConversation req store))
       = handleClearConversation req store
   \<and> snd (handleClearConversation req store) (generateSessionId req) = None"
  by (simp add: handleClearConversation_def Let_def)

theorem clear_idempotent_witness:
  "fst (handleClearConversation
      \<lparr>req_ip = Some ''::1'', remoteAddress = None, userAgent = Some ''x''\<rparr>
      [''other'' \<mapsto> \<lparr>messages = [], lastActivity = 5\<rparr>])
     = ClearSuccess ''Conversation history cleared'' ''OjoxLXg=''
   \<and> snd (handleClearConversation
      \<lparr>req_ip = Some ''::1'', remoteAddress = None, userAgent = Some ''x''\<rparr>
      [''other'' \<mapsto> \<lparr>messages = [], lastActivity = 5\<rparr>])
     = [''other'' \<mapsto> \<lparr>messages = [], lastActivity = 5\<rparr>]"
proof -
  let ?req = "\<lparr>req_ip = Some ''::1'', remoteAddress = None, userAgent = Some ''x''\<rparr>"
  let ?st = "[''other'' \<mapsto> \<lparr>messages = [], lastActivity = 5\<rparr>]"
  have sid: "generateSessionId ?req = ''OjoxLXg=''"
    by (simp add: generateSessionId_def session_source_def js_or_def Let_def
        b64_char_def b64_alphabet_def)
  have absent: "?st (generateSessionId ?req) = None"
    unfolding sid by simp
  note all = clear_idempotent [of ?req ?st]
  have reply: "fst (handleClearConversation ?req ?st)
      = ClearSuccess ''Conversation history cleared'' ''OjoxLXg=''"
    using all [THEN conjunct1] unfolding sid .
  have same: "snd (handleClearConversation ?req ?st) = ?st"
    using all [THEN conjunct2, THEN conjunct1] absent by blast
  show ?thesis using reply same by (intro conjI)
qed

text \<open>
  C10. The session id is the first 16 base64 characters of the source string, and these
  depend on the first 12 bytes of it only: two requests whose source strings agree on
  their first 12 bytes get the same session id.
\<close>

theorem session_key_prefix:
  "generateSessionId r1 = take 16 (base64 (take 12 (session_source r1)))
   \<and> (take 12 (session_source r1) = take 12 (session_source r2)
        \<longrightarrow> generateSessionId r1 = generateSessionId r2)"
proof -
  have key: "generateSessionId r = take 16 (base64 (take 12 (session_source r)))" for r
    using base64_take [of 4 "session_source r"] by (simp add: generateSessionId_def)
  show ?thesis using key [of r1] key [of r2] by simp
qed

theorem session_key_prefix_witness:
  "generateSessionId
      \<lparr>req_ip = Some ''192.168.1.10'', remoteAddress = None, userAgent = Some ''Mozilla/5.0''\<rparr>
     = generateSessionId
      \<lparr>req_ip = Some ''192.168.1.10'', remoteAddress = None, userAgent = Some ''curl/8.0''\<rparr>
   \<and> session_source
      \<lparr>req_ip = Some ''192.168.1.10'', remoteAddress = None, userAgent = Some ''Mozilla/5.0''\<rparr>
     \<noteq> session_source
      \<lparr>req_ip = Some ''192.168.1.10'', remoteAddress = None, userAgent = Some ''curl/8.0''\<rparr>"
proof -
  let ?r1 = "\<lparr>req_ip = Some ''192.168.1.10'', remoteAddress = None,
              userAgent = Some ''Mozilla/5.0''\<rparr>"
  let ?r2 = "\<lparr>req_ip = Some ''192.168.1.10'', remoteAddress = None,
              userAgent = Some ''curl/8.0''\<rparr>"
  have s1: "session_source ?r1 = ''192.168.1.10-Mozilla/5.0''"
    and s2: "session_source ?r2 = ''192.168.1.10-curl/8.0''"
    by (simp_all add: session_source_def js_or_def)
  have pre: "take 12 (session_source ?r1) = take 12 (session_source ?r2)"
    unfolding s1 s2 by simp
  have differ: "session_source ?r1 \<noteq> session_source ?r2"
    unfolding s1 s2 by simp
  have same: "generateSessionId ?r1 = generateSessionId ?r2"
    using session_key_prefix [of ?r1 ?r2, THEN conjunct2] pre by blast
  show ?thesis using same differ by (intro conjI)
qed

end
